theory Spec2Isabelle
  imports Complex_Main
begin

section \<open>The health-check probe of \<^verbatim>\<open>health-check.py\<close>\<close>

text \<open>
  The repository is one Lambda handler, \<^verbatim>\<open>lambda_handler(event, context)\<close>. It reads the
  clock, probes an HTTP endpoint and a DynamoDB table, sends one CloudWatch metric per
  probed service and returns a response holding the JSON text of its report.

  Everything the handler learns from outside comes from the client libraries
  (\<^verbatim>\<open>urllib3\<close>, \<^verbatim>\<open>boto3\<close>, \<^verbatim>\<open>datetime\<close>). Their answers are the fields of a record
  \<open>world\<close>; an answer is either a value or a raised exception. The calls the handler
  makes are logged, in order, in the state it threads through.
\<close>

subsection \<open>Values of the Python program\<close>

text \<open>An exception object, by the name of its class. The handler never looks at one.\<close>

datatype py_exception = PyException string

text \<open>A naive \<^verbatim>\<open>datetime\<close>, as \<^verbatim>\<open>datetime.now()\<close> returns it (no time zone).\<close>

record datetime =
  year :: nat
  month :: nat
  day :: nat
  hour :: nat
  minute :: nat
  second :: nat
  microsecond :: nat

text \<open>One element of the \<^verbatim>\<open>MetricData\<close> list of \<^verbatim>\<open>put_metric_data\<close>.\<close>

record metric_datum =
  MetricName :: string
  Value :: int
  Unit :: string
  Timestamp :: datetime

text \<open>The outbound calls: what was asked, with its arguments.\<close>

datatype call =
    HttpRequest string string
  | DescribeTable string
  | PutMetricData string "metric_datum list"

text \<open>
  The behaviour of the outside for one invocation: \<open>now w k\<close> is the \<open>k\<close>-th reading of
  the clock (counting from 0); the other fields answer a request with its result,
  \<open>Inl\<close> or \<open>Some\<close> for a raised exception. \<open>boto3_client\<close> is the construction of a
  client object, which makes no outbound call of its own but may raise.
\<close>

record world =
  now :: "nat \<Rightarrow> datetime"
  http_request :: "string \<Rightarrow> string \<Rightarrow> py_exception + int"
  boto3_client :: "string \<Rightarrow> py_exception option"
  describe_table :: "string \<Rightarrow> py_exception option"
  put_metric_data :: "string \<Rightarrow> metric_datum list \<Rightarrow> py_exception option"

text \<open>The state threaded through the handler: clock readings taken, calls made.\<close>

record state =
  clock :: nat
  calls :: "call list"

text \<open>
  The dictionary \<^verbatim>\<open>health_status\<close>. Its two keys are fixed by the literal that creates
  it; \<open>services\<close> is a Python \<^verbatim>\<open>dict\<close>, which iterates in insertion order, so it is
  an association list.
\<close>

record health_status =
  timestamp :: string
  services :: "(string \<times> string) list"

text \<open>The returned dictionary.\<close>

record response =
  statusCode :: int
  body :: string

subsection \<open>Library functions the handler uses\<close>

text \<open>\<^verbatim>\<open>d[k] = v\<close> on an insertion-ordered dictionary.\<close>

fun dict_set :: "('k \<times> 'v) list \<Rightarrow> 'k \<Rightarrow> 'v \<Rightarrow> ('k \<times> 'v) list" where
  "dict_set [] k v = [(k, v)]"
| "dict_set ((k', v') # kvs) k v =
     (if k' = k then (k, v) # kvs else (k', v') # dict_set kvs k v)"

text \<open>
  \<open>digits n x\<close> is \<^verbatim>\<open>"%0nd" % x\<close> for \<open>x < 10 ^ n\<close>, which the ranges of the fields of
  a \<^verbatim>\<open>datetime\<close> guarantee (year up to 9999, microsecond up to 999999).
\<close>

definition digit :: "nat \<Rightarrow> char" where
  "digit x = ''0123456789'' ! (x mod 10)"

primrec digits :: "nat \<Rightarrow> nat \<Rightarrow> string" where
  "digits 0 x = []"
| "digits (Suc n) x = digits n (x div 10) @ [digit x]"

text \<open>\<^verbatim>\<open>datetime.isoformat()\<close> with its default arguments, on a naive datetime.\<close>

definition isoformat :: "datetime \<Rightarrow> string" where
  "isoformat t =
     digits 4 (year t) @ ''-'' @ digits 2 (month t) @ ''-'' @ digits 2 (day t) @ ''T''
     @ digits 2 (hour t) @ '':'' @ digits 2 (minute t) @ '':'' @ digits 2 (second t)
     @ (if microsecond t = 0 then [] else ''.'' @ digits 6 (microsecond t))"

text \<open>
  The JSON documents \<^verbatim>\<open>json.dumps\<close> is given here: strings and dictionaries with
  string keys.
\<close>

datatype json = JString string | JObject "(string \<times> json) list"

text \<open>
  A string literal as \<^verbatim>\<open>json.dumps\<close> writes it (\<^verbatim>\<open>ensure_ascii=True\<close>): the quote and the
  backslash are escaped, every character outside \<^verbatim>\<open>' '..'~'\<close> is written by its short
  escape or as \<^verbatim>\<open>\u00xx\<close>. A \<open>char\<close> stands for the code point of its number.
\<close>

definition hex_digit :: "nat \<Rightarrow> char" where
  "hex_digit x = ''0123456789abcdef'' ! (x mod 16)"

definition escape_char :: "char \<Rightarrow> string" where
  "escape_char c =
     (if c = CHR 0x22 then [CHR 0x5C, CHR 0x22]
      else if c = CHR 0x5C then [CHR 0x5C, CHR 0x5C]
      else if c = CHR 0x0A then [CHR 0x5C, CHR ''n'']
      else if c = CHR 0x0D then [CHR 0x5C, CHR ''r'']
      else if c = CHR 0x09 then [CHR 0x5C, CHR ''t'']
      else if c = CHR 0x08 then [CHR 0x5C, CHR ''b'']
      else if c = CHR 0x0C then [CHR 0x5C, CHR ''f'']
      else if (of_char c :: nat) < 32 \<or> 126 < (of_char c :: nat)
        then [CHR 0x5C, CHR ''u'', CHR ''0'', CHR ''0'',
              hex_digit (of_char c div 16), hex_digit (of_char c)]
      else [c])"

definition json_string :: "string \<Rightarrow> string" where
  "json_string s = [CHR 0x22] @ concat (map escape_char s) @ [CHR 0x22]"

text \<open>\<^verbatim>\<open>", ".join(parts)\<close>.\<close>

fun join :: "string \<Rightarrow> string list \<Rightarrow> string" where
  "join sep [] = []"
| "join sep [p] = p"
| "join sep (p # q # ps) = p @ sep @ join sep (q # ps)"

text \<open>\<^verbatim>\<open>json.dumps\<close> with its default separators, \<^verbatim>\<open>", "\<close> and \<^verbatim>\<open>": "\<close>.\<close>

fun json_dumps :: "json \<Rightarrow> string" where
  "json_dumps (JString s) = json_string s"
| "json_dumps (JObject kvs) =
     ''{'' @ join '', '' (map (\<lambda>(k, v). json_string k @ '': '' @ json_dumps v) kvs) @ ''}''"

text \<open>The dictionary \<^verbatim>\<open>health_status\<close> as the document \<^verbatim>\<open>json.dumps\<close> walks.\<close>

definition health_status_json :: "health_status \<Rightarrow> json" where
  "health_status_json hs =
     JObject [(''timestamp'', JString (timestamp hs)),
              (''services'', JObject (map (\<lambda>(k, v). (k, JString v)) (services hs)))]"

subsection \<open>Reading the body back\<close>

text \<open>
  \<^verbatim>\<open>json.loads\<close> on the fragment of JSON that \<^verbatim>\<open>json.dumps\<close> writes here: string
  literals and objects, with blanks allowed between the tokens. \<open>None\<close> stands for a
  \<^verbatim>\<open>JSONDecodeError\<close> and for a text outside the fragment (numbers, arrays, literals
  and \<^verbatim>\<open>\u\<close> escapes above \<^verbatim>\<open>\u00ff\<close>). A key that is repeated keeps its first place and
  its last value, as in a Python \<^verbatim>\<open>dict\<close>.
\<close>

definition is_ws :: "char \<Rightarrow> bool" where
  "is_ws c \<longleftrightarrow> c = CHR '' '' \<or> c = CHR 0x09 \<or> c = CHR 0x0A \<or> c = CHR 0x0D"

definition skip_ws :: "string \<Rightarrow> string" where
  "skip_ws s = dropWhile is_ws s"

definition hex_value :: "char \<Rightarrow> nat option" where
  "hex_value c =
     (let n = (of_char c :: nat) in
      if 48 \<le> n \<and> n \<le> 57 then Some (n - 48)
      else if 97 \<le> n \<and> n \<le> 102 then Some (n - 87)
      else if 65 \<le> n \<and> n \<le> 70 then Some (n - 55)
      else None)"

definition unescape :: "char \<Rightarrow> char option" where
  "unescape c =
     (if c = CHR 0x22 then Some (CHR 0x22)
      else if c = CHR 0x5C then Some (CHR 0x5C)
      else if c = CHR ''/'' then Some (CHR ''/'')
      else if c = CHR ''b'' then Some (CHR 0x08)
      else if c = CHR ''f'' then Some (CHR 0x0C)
      else if c = CHR ''n'' then Some (CHR 0x0A)
      else if c = CHR ''r'' then Some (CHR 0x0D)
      else if c = CHR ''t'' then Some (CHR 0x09)
      else None)"

definition unicode_escape :: "char \<Rightarrow> char \<Rightarrow> char \<Rightarrow> char \<Rightarrow> char option" where
  "unicode_escape a b c d =
     (case (hex_value a, hex_value b, hex_value c, hex_value d) of
        (Some 0, Some 0, Some h, Some l) \<Rightarrow> Some (char_of (16 * h + l))
      | _ \<Rightarrow> None)"

text \<open>The characters of a string literal after its opening quote, and the text left.\<close>

fun scan_string :: "string \<Rightarrow> (string \<times> string) option" where
  "scan_string [] = None"
| "scan_string (c # cs) =
     (if c = CHR 0x22 then Some ([], cs)
      else if c = CHR 0x5C then
        (case cs of
           [] \<Rightarrow> None
         | e # cs' \<Rightarrow>
             if e = CHR ''u'' then
               (case cs' of
                  h1 # h2 # h3 # h4 # cs'' \<Rightarrow>
                    (case unicode_escape h1 h2 h3 h4 of
                       None \<Rightarrow> None
                     | Some x \<Rightarrow>
                         (case scan_string cs'' of
                            None \<Rightarrow> None
                          | Some (s, rest) \<Rightarrow> Some (x # s, rest)))
                | _ \<Rightarrow> None)
             else
               (case unescape e of
                  None \<Rightarrow> None
                | Some x \<Rightarrow>
                    (case scan_string cs' of
                       None \<Rightarrow> None
                     | Some (s, rest) \<Rightarrow> Some (x # s, rest))))
      else if (of_char c :: nat) < 32 then None
      else
        (case scan_string cs of
           None \<Rightarrow> None
         | Some (s, rest) \<Rightarrow> Some (c # s, rest)))"

text \<open>
  A value and the members of an object. The first argument bounds the number of nested
  calls; \<open>json_loads\<close> gives the length of the text, enough since every nested call
  comes after at least one more character has been read.
\<close>

fun parse_value :: "nat \<Rightarrow> string \<Rightarrow> (json \<times> string) option"
  and parse_members :: "nat \<Rightarrow> string \<Rightarrow> ((string \<times> json) list \<times> string) option" where
  "parse_value 0 s = None"
| "parse_value (Suc n) s =
     (case skip_ws s of
        [] \<Rightarrow> None
      | c # cs \<Rightarrow>
          if c = CHR 0x22 then
            (case scan_string cs of
               None \<Rightarrow> None
             | Some (x, rest) \<Rightarrow> Some (JString x, rest))
          else if c = CHR ''{'' then
            (case skip_ws cs of
               [] \<Rightarrow> None
             | c' # cs' \<Rightarrow>
                 if c' = CHR ''}'' then Some (JObject [], cs')
                 else
                   (case parse_members n (c' # cs') of
                      None \<Rightarrow> None
                    | Some (kvs, rest) \<Rightarrow>
                        Some (JObject (foldl (\<lambda>d (k, v). dict_set d k v) [] kvs), rest)))
          else None)"
| "parse_members 0 s = None"
| "parse_members (Suc n) s =
     (case skip_ws s of
        [] \<Rightarrow> None
      | c # cs \<Rightarrow>
          if c \<noteq> CHR 0x22 then None
          else
            (case scan_string cs of
               None \<Rightarrow> None
             | Some (k, s1) \<Rightarrow>
                 (case skip_ws s1 of
                    [] \<Rightarrow> None
                  | c1 # s2 \<Rightarrow>
                      if c1 \<noteq> CHR '':'' then None
                      else
                        (case parse_value n s2 of
                           None \<Rightarrow> None
                         | Some (v, s3) \<Rightarrow>
                             (case skip_ws s3 of
                                [] \<Rightarrow> None
                              | c3 # s4 \<Rightarrow>
                                  if c3 = CHR ''}'' then Some ([(k, v)], s4)
                                  else if c3 = CHR '','' then
                                    (case parse_members n s4 of
                                       None \<Rightarrow> None
                                     | Some (kvs, rest) \<Rightarrow> Some ((k, v) # kvs, rest))
                                  else None)))))"

definition json_loads :: "string \<Rightarrow> json option" where
  "json_loads s =
     (case parse_value (length s) s of
        None \<Rightarrow> None
      | Some (v, rest) \<Rightarrow> if skip_ws rest = [] then Some v else None)"

text \<open>\<^verbatim>\<open>doc[key]\<close> on a parsed document; \<open>None\<close> when the lookup raises.\<close>

fun json_get :: "json \<Rightarrow> string \<Rightarrow> json option" where
  "json_get (JObject kvs) k = map_of kvs k"
| "json_get (JString s) k = None"

text \<open>\<^verbatim>\<open>json.loads(body)['services'][service]\<close>.\<close>

definition body_service :: "string \<Rightarrow> string \<Rightarrow> json option" where
  "body_service b service =
     Option.bind (json_loads b)
       (\<lambda>doc. Option.bind (json_get doc ''services'') (\<lambda>entries. json_get entries service))"

text \<open>
  Strings that \<^verbatim>\<open>json.dumps\<close> writes unchanged between two quotes: printable ASCII
  without the quote and the backslash.
\<close>

definition plain :: "string \<Rightarrow> bool" where
  "plain s = list_all (\<lambda>c. 32 \<le> (of_char c :: nat) \<and> (of_char c :: nat) \<le> 126
                             \<and> c \<noteq> CHR 0x22 \<and> c \<noteq> CHR 0x5C) s"

subsection \<open>The handler\<close>

definition health_url :: string where
  "health_url = ''https://y06kgtou3i.execute-api.eu-west-2.amazonaws.com/prod/health''"

text \<open>Lines 10 to 13: the report is created with the first clock reading.\<close>

definition new_health_status :: "world \<Rightarrow> state \<Rightarrow> state \<times> health_status" where
  "new_health_status w s =
     (s\<lparr>clock := Suc (clock s)\<rparr>,
      \<lparr>timestamp = isoformat (now w (clock s)), services = []\<rparr>)"

text \<open>
  Lines 15 to 20. The bare \<^verbatim>\<open>except:\<close> catches every exception the request raises.
\<close>

definition check_api_gateway :: "world \<Rightarrow> state \<Rightarrow> health_status \<Rightarrow> state \<times> health_status" where
  "check_api_gateway w s hs =
     (let s' = s\<lparr>calls := calls s @ [HttpRequest ''GET'' health_url]\<rparr>
      in case http_request w ''GET'' health_url of
           Inr status \<Rightarrow>
             (s', hs\<lparr>services := dict_set (services hs) ''api_gateway''
                       (if status = 200 then ''healthy'' else ''degraded'')\<rparr>)
         | Inl e \<Rightarrow>
             (s', hs\<lparr>services := dict_set (services hs) ''api_gateway'' ''unhealthy''\<rparr>))"

text \<open>
  Lines 22 to 28. The client is constructed before the \<^verbatim>\<open>try\<close>, so an exception of the
  constructor leaves the function.
\<close>

definition check_dynamodb ::
  "world \<Rightarrow> state \<Rightarrow> health_status \<Rightarrow> state \<times> (py_exception + health_status)" where
  "check_dynamodb w s hs =
     (case boto3_client w ''dynamodb'' of
        Some e \<Rightarrow> (s, Inl e)
      | None \<Rightarrow>
          (let s' = s\<lparr>calls := calls s @ [DescribeTable ''bvester-users'']\<rparr>
           in case describe_table w ''bvester-users'' of
                None \<Rightarrow>
                  (s', Inr (hs\<lparr>services := dict_set (services hs) ''dynamodb'' ''healthy''\<rparr>))
              | Some e \<Rightarrow>
                  (s', Inr (hs\<lparr>services := dict_set (services hs) ''dynamodb'' ''unhealthy''\<rparr>))))"

text \<open>The argument of one \<^verbatim>\<open>put_metric_data\<close> call of the loop, lines 32 to 40.\<close>

definition metric_data :: "string \<Rightarrow> string \<Rightarrow> datetime \<Rightarrow> metric_datum list" where
  "metric_data service status t =
     [\<lparr>MetricName = service @ ''_health'',
       Value = (if status = ''healthy'' then 1 else 0),
       Unit = ''None'',
       Timestamp = t\<rparr>]"

text \<open>
  Lines 31 to 40: the loop over \<^verbatim>\<open>health_status['services'].items()\<close>. Nothing catches
  an exception of \<^verbatim>\<open>put_metric_data\<close>: the loop stops there.
\<close>

fun send_metrics ::
  "world \<Rightarrow> (string \<times> string) list \<Rightarrow> state \<Rightarrow> state \<times> py_exception option" where
  "send_metrics w [] s = (s, None)"
| "send_metrics w ((service, status) # rest) s =
     (let md = metric_data service status (now w (clock s));
          s' = s\<lparr>clock := Suc (clock s),
                 calls := calls s @ [PutMetricData ''Bvester/Health'' md]\<rparr>
      in case put_metric_data w ''Bvester/Health'' md of
           Some e \<Rightarrow> (s', Some e)
         | None \<Rightarrow> send_metrics w rest s')"

text \<open>Lines 10 to 28: the report as it stands when the loop starts.\<close>

definition run_checks :: "world \<Rightarrow> state \<Rightarrow> state \<times> (py_exception + health_status)" where
  "run_checks w s =
     (let (s1, hs0) = new_health_status w s;
          (s2, hs1) = check_api_gateway w s1 hs0
      in check_dynamodb w s2 hs1)"

text \<open>
  The handler: the calls it made, in order, and either the exception that left it or the
  dictionary it returned.
\<close>

definition lambda_handler ::
  "world \<Rightarrow> 'e \<Rightarrow> 'c \<Rightarrow> call list \<times> (py_exception + response)" where
  "lambda_handler w event context =
     (case run_checks w \<lparr>clock = 0, calls = []\<rparr> of
        (s, Inl e) \<Rightarrow> (calls s, Inl e)
      | (s, Inr hs) \<Rightarrow>
          (case send_metrics w (services hs) s of
             (s', Some e) \<Rightarrow> (calls s', Inl e)
           | (s', None) \<Rightarrow>
               (calls s', Inr \<lparr>statusCode = 200,
                               body = json_dumps (health_status_json hs)\<rparr>)))"

subsection \<open>Sample worlds\<close>

text \<open>
  Worlds with constant answers, for running the handler on concrete inputs: the answer
  of the HTTP request, of the client constructor and of the describe-table call, and the
  answer of the metrics service by metric name. The clock advances by a second a reading.
\<close>

definition sample_clock :: "nat \<Rightarrow> datetime" where
  "sample_clock k =
     \<lparr>year = 2024, month = 3, day = 9, hour = 7, minute = 5, second = k, microsecond = 1200\<rparr>"

definition sample_world ::
  "py_exception + int \<Rightarrow> py_exception option \<Rightarrow> py_exception option
     \<Rightarrow> (string \<Rightarrow> py_exception option) \<Rightarrow> world" where
  "sample_world http client table metric =
     \<lparr>now = sample_clock,
      http_request = (\<lambda>method url. http),
      boto3_client = (\<lambda>name. client),
      describe_table = (\<lambda>table_name. table),
      put_metric_data =
        (\<lambda>namespace md. case md of [] \<Rightarrow> None | m # ms \<Rightarrow> metric (MetricName m))\<rparr>"

section \<open>The JSON text of a report\<close>

lemma plain_Nil [simp]: "plain []"
  by (simp add: plain_def)

lemma plain_append [simp]: "plain (xs @ ys) \<longleftrightarrow> plain xs \<and> plain ys"
  by (simp add: plain_def)

lemma escape_char_plain:
  "32 \<le> (of_char c :: nat) \<Longrightarrow> (of_char c :: nat) \<le> 126 \<Longrightarrow> c \<noteq> CHR 0x22 \<Longrightarrow> c \<noteq> CHR 0x5C
   \<Longrightarrow> escape_char c = [c]"
  by (auto simp: escape_char_def)

lemma concat_escape_plain: "plain s \<Longrightarrow> concat (map escape_char s) = s"
  by (induction s) (simp_all add: plain_def escape_char_plain)

lemma json_string_plain: "plain s \<Longrightarrow> json_string s = CHR 0x22 # s @ [CHR 0x22]"
  by (simp add: json_string_def concat_escape_plain)

lemma scan_string_plain: "plain s \<Longrightarrow> scan_string (s @ CHR 0x22 # rest) = Some (s, rest)"
  by (induction s) (simp_all add: plain_def)

lemma plain_Cons:
  "plain (c # cs) \<longleftrightarrow>
     32 \<le> (of_char c :: nat) \<and> (of_char c :: nat) \<le> 126 \<and> c \<noteq> CHR 0x22 \<and> c \<noteq> CHR 0x5C
     \<and> plain cs"
  by (simp add: plain_def)

lemma digit_plain: "plain [digit x]"
proof -
  have "list_all (\<lambda>c. plain [c]) ''0123456789''"
    by (simp add: plain_Cons)
  moreover have "''0123456789'' ! (x mod 10) \<in> set ''0123456789''"
    by (rule nth_mem) simp
  ultimately show ?thesis
    unfolding digit_def list_all_iff by blast
qed

lemma digits_plain: "plain (digits n x)"
  using digit_plain by (induction n arbitrary: x) simp_all

lemma isoformat_plain: "plain (isoformat t)"
  by (simp add: isoformat_def digits_plain plain_Cons)

lemma skip_ws_Nil: "skip_ws [] = []"
  by (simp add: skip_ws_def)

lemma skip_ws_Cons: "skip_ws (c # cs) = (if is_ws c then skip_ws cs else c # cs)"
  by (simp add: skip_ws_def)

lemma report_text:
  assumes "plain ts" "plain a" "plain d"
  shows "json_dumps (JObject [(''timestamp'', JString ts),
           (''services'', JObject [(''api_gateway'', JString a), (''dynamodb'', JString d)])]) =
     CHR ''{'' # CHR 0x22 # ''timestamp'' @ CHR 0x22 # '': '' @ CHR 0x22 # ts @ CHR 0x22 # '', ''
       @ CHR 0x22 # ''services'' @ CHR 0x22 # '': {''
       @ CHR 0x22 # ''api_gateway'' @ CHR 0x22 # '': '' @ CHR 0x22 # a @ CHR 0x22 # '', ''
       @ CHR 0x22 # ''dynamodb'' @ CHR 0x22 # '': '' @ CHR 0x22 # d @ CHR 0x22 # ''}}''"
proof -
  have keys: "plain ''timestamp''" "plain ''services''" "plain ''api_gateway''" "plain ''dynamodb''"
    by (simp_all add: plain_Cons)
  show ?thesis
    by (simp add: json_string_plain assms keys)
qed

lemma parse_report_text:
  assumes "plain ts" "plain a" "plain d"
  shows "parse_value (Suc (Suc (Suc (Suc (Suc (Suc (Suc k)))))))
     (CHR ''{'' # CHR 0x22 # ''timestamp'' @ CHR 0x22 # '': '' @ CHR 0x22 # ts @ CHR 0x22 # '', ''
       @ CHR 0x22 # ''services'' @ CHR 0x22 # '': {''
       @ CHR 0x22 # ''api_gateway'' @ CHR 0x22 # '': '' @ CHR 0x22 # a @ CHR 0x22 # '', ''
       @ CHR 0x22 # ''dynamodb'' @ CHR 0x22 # '': '' @ CHR 0x22 # d @ CHR 0x22 # ''}}'') =
     Some (JObject [(''timestamp'', JString ts),
           (''services'', JObject [(''api_gateway'', JString a), (''dynamodb'', JString d)])], [])"
  by (simp add: skip_ws_Cons skip_ws_Nil is_ws_def scan_string_plain assms)

lemma json_loads_report:
  assumes "plain ts" "plain a" "plain d"
  shows "json_loads (json_dumps (JObject [(''timestamp'', JString ts),
           (''services'', JObject [(''api_gateway'', JString a), (''dynamodb'', JString d)])])) =
     Some (JObject [(''timestamp'', JString ts),
           (''services'', JObject [(''api_gateway'', JString a), (''dynamodb'', JString d)])])"
proof -
  let ?text = "CHR ''{'' # CHR 0x22 # ''timestamp'' @ CHR 0x22 # '': '' @ CHR 0x22 # ts @ CHR 0x22 # '', ''
       @ CHR 0x22 # ''services'' @ CHR 0x22 # '': {''
       @ CHR 0x22 # ''api_gateway'' @ CHR 0x22 # '': '' @ CHR 0x22 # a @ CHR 0x22 # '', ''
       @ CHR 0x22 # ''dynamodb'' @ CHR 0x22 # '': '' @ CHR 0x22 # d @ CHR 0x22 # ''}}''"
  have "7 \<le> length ?text" by simp
  then obtain k where "length ?text = 7 + k"
    using le_Suc_ex by blast
  moreover have "7 + k = Suc (Suc (Suc (Suc (Suc (Suc (Suc k))))))"
    by simp
  ultimately have fuel: "length ?text = Suc (Suc (Suc (Suc (Suc (Suc (Suc k))))))"
    by (rule trans)
  show ?thesis
    unfolding report_text [OF assms] json_loads_def fuel parse_report_text [OF assms]
    by (simp add: skip_ws_Nil)
qed

section \<open>What the handler does, step by step\<close>

subsection \<open>The two checks\<close>

lemma map_of_dict_set: "map_of (dict_set kvs k v) k = Some v"
  by (induction kvs) auto

lemma check_api_gateway_eq:
  "\<exists>a. check_api_gateway w s hs =
         (s\<lparr>calls := calls s @ [HttpRequest ''GET'' health_url]\<rparr>,
          hs\<lparr>services := dict_set (services hs) ''api_gateway'' a\<rparr>)
     \<and> (http_request w ''GET'' health_url = Inr 200 \<longrightarrow> a = ''healthy'')
     \<and> (\<forall>c. http_request w ''GET'' health_url = Inr c \<and> c \<noteq> 200 \<longrightarrow> a = ''degraded'')
     \<and> (\<forall>e. http_request w ''GET'' health_url = Inl e \<longrightarrow> a = ''unhealthy'')"
  by (cases "http_request w ''GET'' health_url") (simp_all add: check_api_gateway_def)

lemma check_dynamodb_raises:
  "boto3_client w ''dynamodb'' = Some e \<Longrightarrow> check_dynamodb w s hs = (s, Inl e)"
  by (simp add: check_dynamodb_def)


lemma run_checks_raises:
  "boto3_client w ''dynamodb'' = Some e \<Longrightarrow>
   run_checks w s =
     (s\<lparr>clock := Suc (clock s), calls := calls s @ [HttpRequest ''GET'' health_url]\<rparr>, Inl e)"
  using check_api_gateway_eq [of w "s\<lparr>clock := Suc (clock s)\<rparr>"
      "\<lparr>timestamp = isoformat (now w (clock s)), services = []\<rparr>"]
  by (auto simp: run_checks_def new_health_status_def check_dynamodb_raises)

lemma run_checks_eq:
  assumes "boto3_client w ''dynamodb'' = None"
  shows "\<exists>a d. run_checks w s =
         (s\<lparr>clock := Suc (clock s),
            calls := calls s @ [HttpRequest ''GET'' health_url, DescribeTable ''bvester-users'']\<rparr>,
          Inr \<lparr>timestamp = isoformat (now w (clock s)),
               services = [(''api_gateway'', a), (''dynamodb'', d)]\<rparr>)
     \<and> (http_request w ''GET'' health_url = Inr 200 \<longrightarrow> a = ''healthy'')
     \<and> (\<forall>c. http_request w ''GET'' health_url = Inr c \<and> c \<noteq> 200 \<longrightarrow> a = ''degraded'')
     \<and> (\<forall>e. http_request w ''GET'' health_url = Inl e \<longrightarrow> a = ''unhealthy'')
     \<and> (describe_table w ''bvester-users'' = None \<longrightarrow> d = ''healthy'')
     \<and> (\<forall>e. describe_table w ''bvester-users'' = Some e \<longrightarrow> d = ''unhealthy'')
     \<and> (a = ''healthy'' \<or> a = ''degraded'' \<or> a = ''unhealthy'')
     \<and> (d = ''healthy'' \<or> d = ''unhealthy'')"
  using assms
  by (cases "http_request w ''GET'' health_url"; cases "describe_table w ''bvester-users''")
     (simp_all add: run_checks_def new_health_status_def check_api_gateway_def check_dynamodb_def)

subsection \<open>The metric loop\<close>

text \<open>
  A loop that runs to its end has made one call per entry of the dictionary, in the order
  of the entries, each with its own clock reading.
\<close>

lemma send_metrics_calls:
  "send_metrics w kvs s = (s', None) \<Longrightarrow>
   clock s' = clock s + length kvs \<and>
   calls s' = calls s @
     map (\<lambda>((service, status), k).
            PutMetricData ''Bvester/Health'' (metric_data service status (now w k)))
         (zip kvs [clock s ..< clock s + length kvs])"
proof (induction kvs arbitrary: s)
  case Nil
  then show ?case by simp
next
  case (Cons kv kvs)
  obtain service status where kv: "kv = (service, status)" by (cases kv)
  let ?md = "metric_data service status (now w (clock s))"
  let ?s1 = "s\<lparr>clock := Suc (clock s), calls := calls s @ [PutMetricData ''Bvester/Health'' ?md]\<rparr>"
  from Cons.prems kv have ok: "put_metric_data w ''Bvester/Health'' ?md = None"
    and rest: "send_metrics w kvs ?s1 = (s', None)"
    by (auto simp: Let_def split: option.splits)
  have upt: "[clock s ..< clock s + length (kv # kvs)] = clock s # [Suc (clock s) ..< Suc (clock s) + length kvs]"
    by (subst upt_rec) simp
  from Cons.IH [OF rest] show ?case
    unfolding upt by (simp add: kv)
qed

lemma send_metrics_two:
  "send_metrics w [(k1, v1), (k2, v2)] s =
    (let md1 = metric_data k1 v1 (now w (clock s));
         md2 = metric_data k2 v2 (now w (Suc (clock s)));
         p1 = PutMetricData ''Bvester/Health'' md1;
         p2 = PutMetricData ''Bvester/Health'' md2
     in case put_metric_data w ''Bvester/Health'' md1 of
          Some e \<Rightarrow> (s\<lparr>clock := Suc (clock s), calls := calls s @ [p1]\<rparr>, Some e)
        | None \<Rightarrow>
           (s\<lparr>clock := Suc (Suc (clock s)), calls := calls s @ [p1, p2]\<rparr>,
            put_metric_data w ''Bvester/Health'' md2))"
  by (simp add: Let_def split: option.splits)

subsection \<open>The handler as a whole\<close>

lemma lambda_handler_raises:
  "boto3_client w ''dynamodb'' = Some e \<Longrightarrow>
   lambda_handler w event context = ([HttpRequest ''GET'' health_url], Inl e)"
  by (simp add: lambda_handler_def run_checks_raises)

text \<open>
  The four ways an invocation can end: the client constructor raises; the first metric
  call raises; the second metric call raises; the handler returns. In the last three the
  checks have produced a report with the statuses \<open>a\<close> and \<open>d\<close>.
\<close>

lemma lambda_handler_cases
  [consumes 0, case_names client_raises first_metric_raises second_metric_raises returns]:
  fixes w :: world and event :: 'e and "context" :: 'c
  obtains
    e where
      "boto3_client w ''dynamodb'' = Some e"
      "lambda_handler w event context = ([HttpRequest ''GET'' health_url], Inl e)"
  | a d e where
      "boto3_client w ''dynamodb'' = None"
      "run_checks w \<lparr>clock = 0, calls = []\<rparr> =
         (\<lparr>clock = Suc 0,
            calls = [HttpRequest ''GET'' health_url, DescribeTable ''bvester-users'']\<rparr>,
          Inr \<lparr>timestamp = isoformat (now w 0),
               services = [(''api_gateway'', a), (''dynamodb'', d)]\<rparr>)
       \<and> (http_request w ''GET'' health_url = Inr 200 \<longrightarrow> a = ''healthy'')
       \<and> (\<forall>c. http_request w ''GET'' health_url = Inr c \<and> c \<noteq> 200 \<longrightarrow> a = ''degraded'')
       \<and> (\<forall>e. http_request w ''GET'' health_url = Inl e \<longrightarrow> a = ''unhealthy'')
       \<and> (describe_table w ''bvester-users'' = None \<longrightarrow> d = ''healthy'')
       \<and> (\<forall>e. describe_table w ''bvester-users'' = Some e \<longrightarrow> d = ''unhealthy'')
       \<and> (a = ''healthy'' \<or> a = ''degraded'' \<or> a = ''unhealthy'')
       \<and> (d = ''healthy'' \<or> d = ''unhealthy'')"
      "put_metric_data w ''Bvester/Health'' (metric_data ''api_gateway'' a (now w 1)) = Some e"
      "lambda_handler w event context =
         ([HttpRequest ''GET'' health_url, DescribeTable ''bvester-users'',
           PutMetricData ''Bvester/Health'' (metric_data ''api_gateway'' a (now w 1))], Inl e)"
  | a d e where
      "boto3_client w ''dynamodb'' = None"
      "run_checks w \<lparr>clock = 0, calls = []\<rparr> =
         (\<lparr>clock = Suc 0,
            calls = [HttpRequest ''GET'' health_url, DescribeTable ''bvester-users'']\<rparr>,
          Inr \<lparr>timestamp = isoformat (now w 0),
               services = [(''api_gateway'', a), (''dynamodb'', d)]\<rparr>)
       \<and> (http_request w ''GET'' health_url = Inr 200 \<longrightarrow> a = ''healthy'')
       \<and> (\<forall>c. http_request w ''GET'' health_url = Inr c \<and> c \<noteq> 200 \<longrightarrow> a = ''degraded'')
       \<and> (\<forall>e. http_request w ''GET'' health_url = Inl e \<longrightarrow> a = ''unhealthy'')
       \<and> (describe_table w ''bvester-users'' = None \<longrightarrow> d = ''healthy'')
       \<and> (\<forall>e. describe_table w ''bvester-users'' = Some e \<longrightarrow> d = ''unhealthy'')
       \<and> (a = ''healthy'' \<or> a = ''degraded'' \<or> a = ''unhealthy'')
       \<and> (d = ''healthy'' \<or> d = ''unhealthy'')"
      "put_metric_data w ''Bvester/Health'' (metric_data ''api_gateway'' a (now w 1)) = None"
      "put_metric_data w ''Bvester/Health'' (metric_data ''dynamodb'' d (now w 2)) = Some e"
      "lambda_handler w event context =
         ([HttpRequest ''GET'' health_url, DescribeTable ''bvester-users'',
           PutMetricData ''Bvester/Health'' (metric_data ''api_gateway'' a (now w 1)),
           PutMetricData ''Bvester/Health'' (metric_data ''dynamodb'' d (now w 2))], Inl e)"
  | a d where
      "boto3_client w ''dynamodb'' = None"
      "run_checks w \<lparr>clock = 0, calls = []\<rparr> =
         (\<lparr>clock = Suc 0,
            calls = [HttpRequest ''GET'' health_url, DescribeTable ''bvester-users'']\<rparr>,
          Inr \<lparr>timestamp = isoformat (now w 0),
               services = [(''api_gateway'', a), (''dynamodb'', d)]\<rparr>)
       \<and> (http_request w ''GET'' health_url = Inr 200 \<longrightarrow> a = ''healthy'')
       \<and> (\<forall>c. http_request w ''GET'' health_url = Inr c \<and> c \<noteq> 200 \<longrightarrow> a = ''degraded'')
       \<and> (\<forall>e. http_request w ''GET'' health_url = Inl e \<longrightarrow> a = ''unhealthy'')
       \<and> (describe_table w ''bvester-users'' = None \<longrightarrow> d = ''healthy'')
       \<and> (\<forall>e. describe_table w ''bvester-users'' = Some e \<longrightarrow> d = ''unhealthy'')
       \<and> (a = ''healthy'' \<or> a = ''degraded'' \<or> a = ''unhealthy'')
       \<and> (d = ''healthy'' \<or> d = ''unhealthy'')"
      "put_metric_data w ''Bvester/Health'' (metric_data ''api_gateway'' a (now w 1)) = None"
      "put_metric_data w ''Bvester/Health'' (metric_data ''dynamodb'' d (now w 2)) = None"
      "lambda_handler w event context =
         ([HttpRequest ''GET'' health_url, DescribeTable ''bvester-users'',
           PutMetricData ''Bvester/Health'' (metric_data ''api_gateway'' a (now w 1)),
           PutMetricData ''Bvester/Health'' (metric_data ''dynamodb'' d (now w 2))],
          Inr \<lparr>statusCode = 200,
               body = json_dumps (health_status_json
                        \<lparr>timestamp = isoformat (now w 0),
                         services = [(''api_gateway'', a), (''dynamodb'', d)]\<rparr>)\<rparr>)"
proof (cases "boto3_client w ''dynamodb''")
  case (Some e)
  then show thesis
    using that(1) [of e] lambda_handler_raises [of w e event "context"] by simp
next
  case None
  let ?checked = "\<lambda>a d. run_checks w \<lparr>clock = 0, calls = []\<rparr> =
         (\<lparr>clock = Suc 0,
            calls = [HttpRequest ''GET'' health_url, DescribeTable ''bvester-users'']\<rparr>,
          Inr \<lparr>timestamp = isoformat (now w 0),
               services = [(''api_gateway'', a), (''dynamodb'', d)]\<rparr>)
       \<and> (http_request w ''GET'' health_url = Inr 200 \<longrightarrow> a = ''healthy'')
       \<and> (\<forall>c. http_request w ''GET'' health_url = Inr c \<and> c \<noteq> 200 \<longrightarrow> a = ''degraded'')
       \<and> (\<forall>e. http_request w ''GET'' health_url = Inl e \<longrightarrow> a = ''unhealthy'')
       \<and> (describe_table w ''bvester-users'' = None \<longrightarrow> d = ''healthy'')
       \<and> (\<forall>e. describe_table w ''bvester-users'' = Some e \<longrightarrow> d = ''unhealthy'')
       \<and> (a = ''healthy'' \<or> a = ''degraded'' \<or> a = ''unhealthy'')
       \<and> (d = ''healthy'' \<or> d = ''unhealthy'')"
  have "\<exists>a d. ?checked a d"
    using run_checks_eq [OF None, of "\<lparr>clock = 0, calls = []\<rparr>"] by simp
  then obtain a where "\<exists>d. ?checked a d" ..
  then obtain d where checked: "?checked a d" ..
  note rc = checked [THEN conjunct1]
  let ?p1 = "metric_data ''api_gateway'' a (now w 1)"
  let ?p2 = "metric_data ''dynamodb'' d (now w 2)"
  have h: "lambda_handler w event context =
       (case put_metric_data w ''Bvester/Health'' ?p1 of
          Some e \<Rightarrow>
            ([HttpRequest ''GET'' health_url, DescribeTable ''bvester-users'',
              PutMetricData ''Bvester/Health'' ?p1], Inl e)
        | None \<Rightarrow>
           (case put_metric_data w ''Bvester/Health'' ?p2 of
              Some e \<Rightarrow>
                ([HttpRequest ''GET'' health_url, DescribeTable ''bvester-users'',
                  PutMetricData ''Bvester/Health'' ?p1, PutMetricData ''Bvester/Health'' ?p2],
                 Inl e)
            | None \<Rightarrow>
                ([HttpRequest ''GET'' health_url, DescribeTable ''bvester-users'',
                  PutMetricData ''Bvester/Health'' ?p1, PutMetricData ''Bvester/Health'' ?p2],
                 Inr \<lparr>statusCode = 200,
                      body = json_dumps (health_status_json
                        \<lparr>timestamp = isoformat (now w 0),
                         services = [(''api_gateway'', a), (''dynamodb'', d)]\<rparr>)\<rparr>)))"
    unfolding lambda_handler_def rc
    by (simp add: send_metrics_two Let_def numeral_2_eq_2 del: send_metrics.simps
          split: option.splits)
  show thesis
  proof (cases "put_metric_data w ''Bvester/Health'' ?p1")
    case (Some e)
    with h have "lambda_handler w event context =
         ([HttpRequest ''GET'' health_url, DescribeTable ''bvester-users'',
           PutMetricData ''Bvester/Health'' ?p1], Inl e)"
      by simp
    with None checked Some show thesis by (rule that(2))
  next
    case first: None
    show thesis
    proof (cases "put_metric_data w ''Bvester/Health'' ?p2")
      case (Some e)
      with h first have "lambda_handler w event context =
         ([HttpRequest ''GET'' health_url, DescribeTable ''bvester-users'',
           PutMetricData ''Bvester/Health'' ?p1, PutMetricData ''Bvester/Health'' ?p2], Inl e)"
        by simp
      with None checked first Some show thesis by (rule that(3))
    next
      case second: None
      with h first have "lambda_handler w event context =
         ([HttpRequest ''GET'' health_url, DescribeTable ''bvester-users'',
           PutMetricData ''Bvester/Health'' ?p1, PutMetricData ''Bvester/Health'' ?p2],
          Inr \<lparr>statusCode = 200,
               body = json_dumps (health_status_json
                        \<lparr>timestamp = isoformat (now w 0),
                         services = [(''api_gateway'', a), (''dynamodb'', d)]\<rparr>)\<rparr>)"
        by simp
      with None checked first second show thesis by (rule that(4))
    qed
  qed
qed

subsection \<open>The returned body\<close>

lemma status_plain:
  "a = ''healthy'' \<or> a = ''degraded'' \<or> a = ''unhealthy'' \<Longrightarrow> plain a"
  by (auto simp: plain_Cons)

lemma report_body_loads:
  assumes "a = ''healthy'' \<or> a = ''degraded'' \<or> a = ''unhealthy''"
    and "d = ''healthy'' \<or> d = ''unhealthy''"
  shows "json_loads (json_dumps (health_status_json
            \<lparr>timestamp = isoformat t, services = [(''api_gateway'', a), (''dynamodb'', d)]\<rparr>)) =
         Some (JObject [(''timestamp'', JString (isoformat t)),
           (''services'', JObject [(''api_gateway'', JString a), (''dynamodb'', JString d)])])"
proof -
  have "plain a" using assms(1) by (rule status_plain)
  moreover have "plain d" using assms(2) by (intro status_plain) blast
  ultimately show ?thesis
    unfolding health_status_json_def
    using json_loads_report [OF isoformat_plain, of a d t] by simp
qed

lemma report_body_service:
  assumes "a = ''healthy'' \<or> a = ''degraded'' \<or> a = ''unhealthy''"
    and "d = ''healthy'' \<or> d = ''unhealthy''"
  shows "body_service (json_dumps (health_status_json
            \<lparr>timestamp = isoformat t, services = [(''api_gateway'', a), (''dynamodb'', d)]\<rparr>))
           ''api_gateway'' = Some (JString a)"
    and "body_service (json_dumps (health_status_json
            \<lparr>timestamp = isoformat t, services = [(''api_gateway'', a), (''dynamodb'', d)]\<rparr>))
           ''dynamodb'' = Some (JString d)"
  unfolding body_service_def report_body_loads [OF assms] by simp_all

text \<open>The definitions that running the handler in a sample world unfolds.\<close>

lemmas handler_defs =
  lambda_handler_def run_checks_def new_health_status_def check_api_gateway_def
  check_dynamodb_def metric_data_def sample_world_def Let_def

section \<open>The claims\<close>

text \<open>
  C1. The \<^verbatim>\<open>api_gateway\<close> entry of the report is \<^verbatim>\<open>healthy\<close> when the HTTP GET answers with
  status 200, \<^verbatim>\<open>degraded\<close> when it answers with any other status, and \<^verbatim>\<open>unhealthy\<close> when
  it raises. This holds of the dictionary right after the check, from any state (so in
  every invocation), and of the body of every response the handler returns, read back
  as \<^verbatim>\<open>json.loads(body)['services']['api_gateway']\<close>.
\<close>

theorem api_gateway_status:
  "(http_request w ''GET'' health_url = Inr 200 \<longrightarrow>
      map_of (services (snd (check_api_gateway w s hs))) ''api_gateway'' = Some ''healthy'')
   \<and> (\<forall>c. http_request w ''GET'' health_url = Inr c \<and> c \<noteq> 200 \<longrightarrow>
      map_of (services (snd (check_api_gateway w s hs))) ''api_gateway'' = Some ''degraded'')
   \<and> (\<forall>e. http_request w ''GET'' health_url = Inl e \<longrightarrow>
      map_of (services (snd (check_api_gateway w s hs))) ''api_gateway'' = Some ''unhealthy'')
   \<and> (\<forall>cs r. lambda_handler w event context = (cs, Inr r) \<longrightarrow>
        (http_request w ''GET'' health_url = Inr 200 \<longrightarrow>
           body_service (body r) ''api_gateway'' = Some (JString ''healthy''))
      \<and> (\<forall>c. http_request w ''GET'' health_url = Inr c \<and> c \<noteq> 200 \<longrightarrow>
           body_service (body r) ''api_gateway'' = Some (JString ''degraded''))
      \<and> (\<forall>e. http_request w ''GET'' health_url = Inl e \<longrightarrow>
           body_service (body r) ''api_gateway'' = Some (JString ''unhealthy'')))"
proof -
  obtain a where step: "check_api_gateway w s hs =
         (s\<lparr>calls := calls s @ [HttpRequest ''GET'' health_url]\<rparr>,
          hs\<lparr>services := dict_set (services hs) ''api_gateway'' a\<rparr>)
     \<and> (http_request w ''GET'' health_url = Inr 200 \<longrightarrow> a = ''healthy'')
     \<and> (\<forall>c. http_request w ''GET'' health_url = Inr c \<and> c \<noteq> 200 \<longrightarrow> a = ''degraded'')
     \<and> (\<forall>e. http_request w ''GET'' health_url = Inl e \<longrightarrow> a = ''unhealthy'')"
    using check_api_gateway_eq [of w s hs] ..
  have entry: "map_of (services (snd (check_api_gateway w s hs))) ''api_gateway'' = Some a"
    by (simp add: step [THEN conjunct1] map_of_dict_set)
  have in_dict:
    "(http_request w ''GET'' health_url = Inr 200 \<longrightarrow>
      map_of (services (snd (check_api_gateway w s hs))) ''api_gateway'' = Some ''healthy'')
   \<and> (\<forall>c. http_request w ''GET'' health_url = Inr c \<and> c \<noteq> 200 \<longrightarrow>
      map_of (services (snd (check_api_gateway w s hs))) ''api_gateway'' = Some ''degraded'')
   \<and> (\<forall>e. http_request w ''GET'' health_url = Inl e \<longrightarrow>
      map_of (services (snd (check_api_gateway w s hs))) ''api_gateway'' = Some ''unhealthy'')"
    unfolding entry using step [THEN conjunct2] by blast
  have in_body: "(http_request w ''GET'' health_url = Inr 200 \<longrightarrow>
           body_service (body r) ''api_gateway'' = Some (JString ''healthy''))
      \<and> (\<forall>c. http_request w ''GET'' health_url = Inr c \<and> c \<noteq> 200 \<longrightarrow>
           body_service (body r) ''api_gateway'' = Some (JString ''degraded''))
      \<and> (\<forall>e. http_request w ''GET'' health_url = Inl e \<longrightarrow>
           body_service (body r) ''api_gateway'' = Some (JString ''unhealthy''))"
    if ret: "lambda_handler w event context = (cs, Inr r)" for cs r
  proof (cases rule: lambda_handler_cases [of w event "context"])
    case (client_raises e)
    with ret show ?thesis by simp
  next
    case (first_metric_raises a' d e)
    with ret show ?thesis by simp
  next
    case (second_metric_raises a' d e)
    with ret show ?thesis by simp
  next
    case (returns a' d)
    note st = returns(2) [THEN conjunct2]
    from ret returns(5) have "body r = json_dumps (health_status_json
                        \<lparr>timestamp = isoformat (now w 0),
                         services = [(''api_gateway'', a'), (''dynamodb'', d)]\<rparr>)"
      by auto
    then have "body_service (body r) ''api_gateway'' = Some (JString a')"
      using st report_body_service(1) [of a' d "now w 0"] by simp
    with st show ?thesis by simp
  qed
  from in_dict in_body show ?thesis by blast
qed

theorem api_gateway_status_witness:
  "(\<exists>cs r. lambda_handler (sample_world (Inr 200) None None (\<lambda>n. None)) () () = (cs, Inr r)
      \<and> body_service (body r) ''api_gateway'' = Some (JString ''healthy''))
   \<and> (\<exists>cs r. lambda_handler (sample_world (Inr 503) None None (\<lambda>n. None)) () () = (cs, Inr r)
      \<and> body_service (body r) ''api_gateway'' = Some (JString ''degraded''))
   \<and> (\<exists>cs r. lambda_handler
          (sample_world (Inl (PyException ''MaxRetryError'')) None None (\<lambda>n. None)) () ()
        = (cs, Inr r)
      \<and> body_service (body r) ''api_gateway'' = Some (JString ''unhealthy''))
   \<and> map_of (services (snd (check_api_gateway (sample_world (Inr 503) None None (\<lambda>n. None))
         \<lparr>clock = 1, calls = []\<rparr> \<lparr>timestamp = [], services = []\<rparr>))) ''api_gateway''
       = Some ''degraded''"
  using
    api_gateway_status [of "sample_world (Inr 200) None None (\<lambda>n. None)"
      "\<lparr>clock = 1, calls = []\<rparr>" "\<lparr>timestamp = [], services = []\<rparr>" "()" "()"]
    api_gateway_status [of "sample_world (Inr 503) None None (\<lambda>n. None)"
      "\<lparr>clock = 1, calls = []\<rparr>" "\<lparr>timestamp = [], services = []\<rparr>" "()" "()"]
    api_gateway_status [of "sample_world (Inl (PyException ''MaxRetryError'')) None None (\<lambda>n. None)"
      "\<lparr>clock = 1, calls = []\<rparr>" "\<lparr>timestamp = [], services = []\<rparr>" "()" "()"]
  by (simp add: handler_defs)



text \<open>
  C3. When the handler returns, its calls are the two checks followed by exactly one
  \<^verbatim>\<open>put_metric_data\<close> call per entry of \<^verbatim>\<open>services\<close>, in the order of the entries, two in
  all (\<open>send_metrics_calls\<close> says the same of the loop over a dictionary of any size). Each goes to the namespace \<^verbatim>\<open>Bvester/Health\<close> with one datum, named
  \<^verbatim>\<open><service>_health\<close>, whose value is 1.0 when the status of the service is \<^verbatim>\<open>healthy\<close>
  and 0.0 otherwise. The code passes the Python integers 1 and 0; they are compared here
  as real numbers.
\<close>

theorem one_metric_per_service:
  assumes "lambda_handler w event context = (cs, Inr r)"
  shows "\<exists>s hs ms.
     run_checks w \<lparr>clock = 0, calls = []\<rparr> = (s, Inr hs)
     \<and> body r = json_dumps (health_status_json hs)
     \<and> calls s = [HttpRequest ''GET'' health_url, DescribeTable ''bvester-users'']
     \<and> cs = calls s @ map (\<lambda>m. PutMetricData ''Bvester/Health'' [m]) ms
     \<and> length ms = length (services hs) \<and> length ms = 2
     \<and> list_all2
          (\<lambda>(service, status) m.
             MetricName m = service @ ''_health''
             \<and> real_of_int (Value m) = (if status = ''healthy'' then 1.0 else 0.0))
          (services hs) ms
     \<and> (\<forall>m \<in> set ms. real_of_int (Value m) = 0.0 \<or> real_of_int (Value m) = 1.0)"
proof (cases rule: lambda_handler_cases [of w event "context"])
  case (client_raises e)
  with assms show ?thesis by simp
next
  case (first_metric_raises a d e)
  with assms show ?thesis by simp
next
  case (second_metric_raises a d e)
  with assms show ?thesis by simp
next
  case (returns a d)
  let ?s = "\<lparr>clock = Suc 0,
            calls = [HttpRequest ''GET'' health_url, DescribeTable ''bvester-users'']\<rparr>"
  let ?hs = "\<lparr>timestamp = isoformat (now w 0),
               services = [(''api_gateway'', a), (''dynamodb'', d)]\<rparr>"
  let ?ms = "metric_data ''api_gateway'' a (now w 1) @ metric_data ''dynamodb'' d (now w 2)"
  from assms returns(5) have cs: "cs =
         [HttpRequest ''GET'' health_url, DescribeTable ''bvester-users'',
           PutMetricData ''Bvester/Health'' (metric_data ''api_gateway'' a (now w 1)),
           PutMetricData ''Bvester/Health'' (metric_data ''dynamodb'' d (now w 2))]"
    and r: "r = \<lparr>statusCode = 200, body = json_dumps (health_status_json ?hs)\<rparr>"
    by simp_all
  have "run_checks w \<lparr>clock = 0, calls = []\<rparr> = (?s, Inr ?hs)"
    using returns(2) by (rule conjunct1)
  moreover have "body r = json_dumps (health_status_json ?hs)"
    by (simp add: r)
  moreover have "calls ?s = [HttpRequest ''GET'' health_url, DescribeTable ''bvester-users'']"
    by simp
  moreover have "cs = calls ?s @ map (\<lambda>m. PutMetricData ''Bvester/Health'' [m]) ?ms"
    by (simp add: cs metric_data_def)
  moreover have "length ?ms = length (services ?hs)" "length ?ms = 2"
    by (simp_all add: metric_data_def)
  moreover have "list_all2
          (\<lambda>(service, status) m.
             MetricName m = service @ ''_health''
             \<and> real_of_int (Value m) = (if status = ''healthy'' then 1.0 else 0.0))
          (services ?hs) ?ms"
    by (simp add: metric_data_def)
  moreover have "\<forall>m \<in> set ?ms. real_of_int (Value m) = 0.0 \<or> real_of_int (Value m) = 1.0"
    by (simp add: metric_data_def)
  ultimately show ?thesis by blast
qed

theorem one_metric_per_service_witness:
  "\<exists>cs r m1 m2.
     lambda_handler (sample_world (Inr 503) None None (\<lambda>n. None)) () () = (cs, Inr r)
     \<and> cs = [HttpRequest ''GET'' health_url, DescribeTable ''bvester-users'',
             PutMetricData ''Bvester/Health'' [m1], PutMetricData ''Bvester/Health'' [m2]]
     \<and> MetricName m1 = ''api_gateway_health'' \<and> real_of_int (Value m1) = 0.0
     \<and> MetricName m2 = ''dynamodb_health'' \<and> real_of_int (Value m2) = 1.0"
proof -
  let ?w = "sample_world (Inr 503) None None (\<lambda>n. None)"
  obtain cs r where run: "lambda_handler ?w () () = (cs, Inr r)"
    by (simp add: handler_defs)
  from one_metric_per_service [OF run]
  obtain s hs ms where
    checks: "run_checks ?w \<lparr>clock = 0, calls = []\<rparr> = (s, Inr hs)"
    and cs: "cs = calls s @ map (\<lambda>m. PutMetricData ''Bvester/Health'' [m]) ms"
    and s: "calls s = [HttpRequest ''GET'' health_url, DescribeTable ''bvester-users'']"
    and each: "list_all2
          (\<lambda>(service, status) m.
             MetricName m = service @ ''_health''
             \<and> real_of_int (Value m) = (if status = ''healthy'' then 1.0 else 0.0))
          (services hs) ms"
    by blast
  from checks have "services hs = [(''api_gateway'', ''degraded''), (''dynamodb'', ''healthy'')]"
    by (auto simp: handler_defs)
  with each obtain m1 m2 where "ms = [m1, m2]"
    "MetricName m1 = ''api_gateway_health''" "real_of_int (Value m1) = 0.0"
    "MetricName m2 = ''dynamodb_health''" "real_of_int (Value m2) = 1.0"
    by (auto simp: list_all2_Cons1)
  with run cs s show ?thesis by simp
qed

text \<open>
  C4. Whenever the handler returns, \<^verbatim>\<open>statusCode\<close> is 200 and \<^verbatim>\<open>body\<close> is the JSON text of
  the report the checks produced, whatever the statuses in it.
\<close>

theorem returns_200_with_report:
  assumes "lambda_handler w event context = (cs, Inr r)"
  shows "statusCode r = 200 \<and>
    (\<exists>s hs. run_checks w \<lparr>clock = 0, calls = []\<rparr> = (s, Inr hs) \<and>
       body r = json_dumps (health_status_json hs))"
proof (cases rule: lambda_handler_cases [of w event "context"])
  case (client_raises e)
  with assms show ?thesis by simp
next
  case (first_metric_raises a d e)
  with assms show ?thesis by simp
next
  case (second_metric_raises a d e)
  with assms show ?thesis by simp
next
  case (returns a d)
  from assms returns(5) have r: "r = \<lparr>statusCode = 200,
               body = json_dumps (health_status_json
                        \<lparr>timestamp = isoformat (now w 0),
                         services = [(''api_gateway'', a), (''dynamodb'', d)]\<rparr>)\<rparr>"
    by simp
  from returns(2) have "run_checks w \<lparr>clock = 0, calls = []\<rparr> =
         (\<lparr>clock = Suc 0,
            calls = [HttpRequest ''GET'' health_url, DescribeTable ''bvester-users'']\<rparr>,
          Inr \<lparr>timestamp = isoformat (now w 0),
               services = [(''api_gateway'', a), (''dynamodb'', d)]\<rparr>)"
    by (rule conjunct1)
  then show ?thesis unfolding r by simp
qed

theorem returns_200_with_report_witness:
  "\<exists>cs r.
     lambda_handler
       (sample_world (Inl (PyException ''MaxRetryError'')) None
          (Some (PyException ''ResourceNotFoundException'')) (\<lambda>n. None)) () () = (cs, Inr r)
     \<and> statusCode r = 200
     \<and> body r = json_dumps (health_status_json
          \<lparr>timestamp = isoformat (sample_clock 0),
           services = [(''api_gateway'', ''unhealthy''), (''dynamodb'', ''unhealthy'')]\<rparr>)"
proof -
  let ?w = "sample_world (Inl (PyException ''MaxRetryError'')) None
          (Some (PyException ''ResourceNotFoundException'')) (\<lambda>n. None)"
  obtain cs r where run: "lambda_handler ?w () () = (cs, Inr r)"
    by (simp add: handler_defs)
  from returns_200_with_report [OF run]
  obtain s hs where code: "statusCode r = 200"
    and checks: "run_checks ?w \<lparr>clock = 0, calls = []\<rparr> = (s, Inr hs)"
    and body: "body r = json_dumps (health_status_json hs)"
    by blast
  from checks have "hs = \<lparr>timestamp = isoformat (sample_clock 0),
           services = [(''api_gateway'', ''unhealthy''), (''dynamodb'', ''unhealthy'')]\<rparr>"
    by (auto simp: handler_defs)
  with run code body show ?thesis by simp
qed

text \<open>
  C5. Whenever the handler returns, parsing the body gives an object with exactly the
  keys \<^verbatim>\<open>timestamp\<close> and \<^verbatim>\<open>services\<close>, and \<^verbatim>\<open>services\<close> is an object with exactly the keys
  \<^verbatim>\<open>api_gateway\<close> and \<^verbatim>\<open>dynamodb\<close>, each holding one of the status words.
\<close>

theorem body_has_exactly_the_report_keys:
  assumes "lambda_handler w event context = (cs, Inr r)"
  shows "\<exists>ts a d.
     json_loads (body r) =
       Some (JObject [(''timestamp'', JString ts),
              (''services'', JObject [(''api_gateway'', JString a), (''dynamodb'', JString d)])])
     \<and> (a = ''healthy'' \<or> a = ''degraded'' \<or> a = ''unhealthy'')
     \<and> (d = ''healthy'' \<or> d = ''unhealthy'')"
proof (cases rule: lambda_handler_cases [of w event "context"])
  case (client_raises e)
  with assms show ?thesis by simp
next
  case (first_metric_raises a d e)
  with assms show ?thesis by simp
next
  case (second_metric_raises a d e)
  with assms show ?thesis by simp
next
  case (returns a d)
  have a: "a = ''healthy'' \<or> a = ''degraded'' \<or> a = ''unhealthy''"
    and d: "d = ''healthy'' \<or> d = ''unhealthy''"
    using returns(2) by blast+
  from assms returns(5) have "body r = json_dumps (health_status_json
                        \<lparr>timestamp = isoformat (now w 0),
                         services = [(''api_gateway'', a), (''dynamodb'', d)]\<rparr>)"
    by auto
  then have "json_loads (body r) =
       Some (JObject [(''timestamp'', JString (isoformat (now w 0))),
              (''services'', JObject [(''api_gateway'', JString a), (''dynamodb'', JString d)])])"
    using report_body_loads [OF a d, of "now w 0"] by simp
  with a d show ?thesis by blast
qed

theorem body_has_exactly_the_report_keys_witness:
  "\<exists>cs r ts a d.
     lambda_handler (sample_world (Inl (PyException ''MaxRetryError'')) None None (\<lambda>n. None))
       () () = (cs, Inr r)
     \<and> json_loads (body r) =
       Some (JObject [(''timestamp'', JString ts),
              (''services'', JObject [(''api_gateway'', JString a), (''dynamodb'', JString d)])])"
proof -
  obtain cs r where run:
    "lambda_handler (sample_world (Inl (PyException ''MaxRetryError'')) None None (\<lambda>n. None))
       () () = (cs, Inr r)"
    by (simp add: handler_defs)
  from body_has_exactly_the_report_keys [OF run] run show ?thesis by blast
qed

text \<open>
  C6. The fault isolation of the two checks is that of their calls: an error of the HTTP
  request or of the describe-table call is absorbed by the check that made the call.
  First, once the table-storage client exists, the checks always finish, both calls are
  made and both entries are recorded, a call that raised as \<^verbatim>\<open>unhealthy\<close>: neither call
  can keep the other check from being recorded. Second, an exception that leaves the
  handler was raised by the client constructor or by a metric call that was made. Third,
  when the client exists and no metric call raises, the handler returns, whatever the
  two calls did. The isolation does not reach the first statement of the second check,
  which constructs the client outside the \<^verbatim>\<open>try\<close>.
\<close>

theorem check_errors_absorbed:
  "(boto3_client w ''dynamodb'' = None \<longrightarrow>
      (\<exists>s hs a d.
         run_checks w \<lparr>clock = 0, calls = []\<rparr> = (s, Inr hs)
         \<and> calls s = [HttpRequest ''GET'' health_url, DescribeTable ''bvester-users'']
         \<and> services hs = [(''api_gateway'', a), (''dynamodb'', d)]
         \<and> ((\<exists>e. http_request w ''GET'' health_url = Inl e) \<longrightarrow> a = ''unhealthy'')
         \<and> ((\<exists>e. describe_table w ''bvester-users'' = Some e) \<longrightarrow> d = ''unhealthy'')))
   \<and> (\<forall>cs e. lambda_handler w event context = (cs, Inl e) \<longrightarrow>
        boto3_client w ''dynamodb'' = Some e
        \<or> (\<exists>md. PutMetricData ''Bvester/Health'' md \<in> set cs
                \<and> put_metric_data w ''Bvester/Health'' md = Some e))
   \<and> (boto3_client w ''dynamodb'' = None
        \<and> (\<forall>md. put_metric_data w ''Bvester/Health'' md = None) \<longrightarrow>
        (\<exists>cs r. lambda_handler w event context = (cs, Inr r)))"
proof (cases rule: lambda_handler_cases [of w event "context"])
  case (client_raises e)
  then show ?thesis by simp
next
  case (first_metric_raises a d e)
  let ?s = "\<lparr>clock = Suc 0,
            calls = [HttpRequest ''GET'' health_url, DescribeTable ''bvester-users'']\<rparr>"
  let ?hs = "\<lparr>timestamp = isoformat (now w 0),
               services = [(''api_gateway'', a), (''dynamodb'', d)]\<rparr>"
  have "run_checks w \<lparr>clock = 0, calls = []\<rparr> = (?s, Inr ?hs)
         \<and> calls ?s = [HttpRequest ''GET'' health_url, DescribeTable ''bvester-users'']
         \<and> services ?hs = [(''api_gateway'', a), (''dynamodb'', d)]
         \<and> ((\<exists>e. http_request w ''GET'' health_url = Inl e) \<longrightarrow> a = ''unhealthy'')
         \<and> ((\<exists>e. describe_table w ''bvester-users'' = Some e) \<longrightarrow> d = ''unhealthy'')"
    using first_metric_raises(2) by simp
  then have checks: "\<exists>s hs a d.
         run_checks w \<lparr>clock = 0, calls = []\<rparr> = (s, Inr hs)
         \<and> calls s = [HttpRequest ''GET'' health_url, DescribeTable ''bvester-users'']
         \<and> services hs = [(''api_gateway'', a), (''dynamodb'', d)]
         \<and> ((\<exists>e. http_request w ''GET'' health_url = Inl e) \<longrightarrow> a = ''unhealthy'')
         \<and> ((\<exists>e. describe_table w ''bvester-users'' = Some e) \<longrightarrow> d = ''unhealthy'')"
    by (intro exI)
  have "PutMetricData ''Bvester/Health'' (metric_data ''api_gateway'' a (now w 1))
      \<in> set (fst (lambda_handler w event context))"
    by (simp add: first_metric_raises(4))
  with first_metric_raises(3,4) checks show ?thesis by auto
next
  case (second_metric_raises a d e)
  let ?s = "\<lparr>clock = Suc 0,
            calls = [HttpRequest ''GET'' health_url, DescribeTable ''bvester-users'']\<rparr>"
  let ?hs = "\<lparr>timestamp = isoformat (now w 0),
               services = [(''api_gateway'', a), (''dynamodb'', d)]\<rparr>"
  have "run_checks w \<lparr>clock = 0, calls = []\<rparr> = (?s, Inr ?hs)
         \<and> calls ?s = [HttpRequest ''GET'' health_url, DescribeTable ''bvester-users'']
         \<and> services ?hs = [(''api_gateway'', a), (''dynamodb'', d)]
         \<and> ((\<exists>e. http_request w ''GET'' health_url = Inl e) \<longrightarrow> a = ''unhealthy'')
         \<and> ((\<exists>e. describe_table w ''bvester-users'' = Some e) \<longrightarrow> d = ''unhealthy'')"
    using second_metric_raises(2) by simp
  then have checks: "\<exists>s hs a d.
         run_checks w \<lparr>clock = 0, calls = []\<rparr> = (s, Inr hs)
         \<and> calls s = [HttpRequest ''GET'' health_url, DescribeTable ''bvester-users'']
         \<and> services hs = [(''api_gateway'', a), (''dynamodb'', d)]
         \<and> ((\<exists>e. http_request w ''GET'' health_url = Inl e) \<longrightarrow> a = ''unhealthy'')
         \<and> ((\<exists>e. describe_table w ''bvester-users'' = Some e) \<longrightarrow> d = ''unhealthy'')"
    by (intro exI)
  have "PutMetricData ''Bvester/Health'' (metric_data ''dynamodb'' d (now w 2))
      \<in> set (fst (lambda_handler w event context))"
    by (simp add: second_metric_raises(5))
  with second_metric_raises(4,5) checks show ?thesis by auto
next
  case (returns a d)
  let ?s = "\<lparr>clock = Suc 0,
            calls = [HttpRequest ''GET'' health_url, DescribeTable ''bvester-users'']\<rparr>"
  let ?hs = "\<lparr>timestamp = isoformat (now w 0),
               services = [(''api_gateway'', a), (''dynamodb'', d)]\<rparr>"
  have "run_checks w \<lparr>clock = 0, calls = []\<rparr> = (?s, Inr ?hs)
         \<and> calls ?s = [HttpRequest ''GET'' health_url, DescribeTable ''bvester-users'']
         \<and> services ?hs = [(''api_gateway'', a), (''dynamodb'', d)]
         \<and> ((\<exists>e. http_request w ''GET'' health_url = Inl e) \<longrightarrow> a = ''unhealthy'')
         \<and> ((\<exists>e. describe_table w ''bvester-users'' = Some e) \<longrightarrow> d = ''unhealthy'')"
    using returns(2) by simp
  then have checks: "\<exists>s hs a d.
         run_checks w \<lparr>clock = 0, calls = []\<rparr> = (s, Inr hs)
         \<and> calls s = [HttpRequest ''GET'' health_url, DescribeTable ''bvester-users'']
         \<and> services hs = [(''api_gateway'', a), (''dynamodb'', d)]
         \<and> ((\<exists>e. http_request w ''GET'' health_url = Inl e) \<longrightarrow> a = ''unhealthy'')
         \<and> ((\<exists>e. describe_table w ''bvester-users'' = Some e) \<longrightarrow> d = ''unhealthy'')"
    by (intro exI)
  with returns(5) show ?thesis by simp
qed

theorem check_errors_absorbed_witness:
  "(\<exists>s hs.
      run_checks
        (sample_world (Inl (PyException ''MaxRetryError'')) None
           (Some (PyException ''ResourceNotFoundException'')) (\<lambda>n. None))
        \<lparr>clock = 0, calls = []\<rparr> = (s, Inr hs)
      \<and> calls s = [HttpRequest ''GET'' health_url, DescribeTable ''bvester-users'']
      \<and> services hs = [(''api_gateway'', ''unhealthy''), (''dynamodb'', ''unhealthy'')])
   \<and> (\<exists>cs r.
        lambda_handler
          (sample_world (Inl (PyException ''MaxRetryError'')) None
             (Some (PyException ''ResourceNotFoundException'')) (\<lambda>n. None)) () () = (cs, Inr r))
   \<and> (\<exists>cs md.
        lambda_handler
          (sample_world (Inl (PyException ''MaxRetryError'')) None None
             (\<lambda>n. Some (PyException ''ClientError''))) () ()
          = (cs, Inl (PyException ''ClientError''))
        \<and> PutMetricData ''Bvester/Health'' md \<in> set cs)"
proof -
  let ?w = "sample_world (Inl (PyException ''MaxRetryError'')) None
           (Some (PyException ''ResourceNotFoundException'')) (\<lambda>n. None)"
  let ?v = "sample_world (Inl (PyException ''MaxRetryError'')) None None
             (\<lambda>n. Some (PyException ''ClientError''))"
  note w = check_errors_absorbed [of ?w "()" "()"]
  note v = check_errors_absorbed [of ?v "()" "()"]
  have client: "boto3_client ?w ''dynamodb'' = None"
    and metrics: "\<forall>md. put_metric_data ?w ''Bvester/Health'' md = None"
    and http: "\<exists>e. http_request ?w ''GET'' health_url = Inl e"
    and table: "\<exists>e. describe_table ?w ''bvester-users'' = Some e"
    by (simp_all add: sample_world_def split: list.splits)
  from w client http table have "\<exists>s hs.
      run_checks ?w \<lparr>clock = 0, calls = []\<rparr> = (s, Inr hs)
      \<and> calls s = [HttpRequest ''GET'' health_url, DescribeTable ''bvester-users'']
      \<and> services hs = [(''api_gateway'', ''unhealthy''), (''dynamodb'', ''unhealthy'')]"
    by blast
  moreover from w client metrics have "\<exists>cs r. lambda_handler ?w () () = (cs, Inr r)"
    by blast
  moreover have "\<exists>cs md. lambda_handler ?v () () = (cs, Inl (PyException ''ClientError''))
        \<and> PutMetricData ''Bvester/Health'' md \<in> set cs"
  proof -
    obtain cs where run: "lambda_handler ?v () () = (cs, Inl (PyException ''ClientError''))"
      by (simp add: handler_defs)
    moreover have "boto3_client ?v ''dynamodb'' \<noteq> Some (PyException ''ClientError'')"
      by (simp add: sample_world_def)
    ultimately show ?thesis using v by blast
  qed
  ultimately show ?thesis by blast
qed

text \<open>
  C6 does not hold of every error raised inside a check: where the second check cannot
  construct its client, the check ends with the exception and so does the handler, with
  every metric call ready to succeed and the status of the first check never reported.
\<close>

theorem check_errors_absorbed_counterexample:
  "check_dynamodb
     (sample_world (Inr 200) (Some (PyException ''ProfileNotFound'')) None (\<lambda>n. None))
     \<lparr>clock = 1, calls = [HttpRequest ''GET'' health_url]\<rparr>
     \<lparr>timestamp = isoformat (sample_clock 0), services = [(''api_gateway'', ''healthy'')]\<rparr>
   = (\<lparr>clock = 1, calls = [HttpRequest ''GET'' health_url]\<rparr>,
      Inl (PyException ''ProfileNotFound''))
   \<and> lambda_handler
       (sample_world (Inr 200) (Some (PyException ''ProfileNotFound'')) None (\<lambda>n. None)) () ()
     = ([HttpRequest ''GET'' health_url], Inl (PyException ''ProfileNotFound''))"
  by (simp add: handler_defs)

text \<open>
  C7. When a metric call that the handler made raises, the handler ends with that very
  exception and returns nothing; the raising call is the last call it made.
\<close>

theorem metric_error_propagates:
  assumes run: "lambda_handler w event context = (cs, res)"
    and made: "PutMetricData ns md \<in> set cs"
    and raised: "put_metric_data w ns md = Some e"
  shows "res = Inl e \<and> last cs = PutMetricData ns md"
proof (cases rule: lambda_handler_cases [of w event "context"])
  case (client_raises e')
  from run client_raises(2) have "cs = [HttpRequest ''GET'' health_url]" by simp
  with made show ?thesis by simp
next
  case (first_metric_raises a d e')
  from run first_metric_raises(4) have cs: "cs =
         [HttpRequest ''GET'' health_url, DescribeTable ''bvester-users'',
          PutMetricData ''Bvester/Health'' (metric_data ''api_gateway'' a (now w 1))]"
    and res: "res = Inl e'" by simp_all
  from made have "PutMetricData ns md =
      PutMetricData ''Bvester/Health'' (metric_data ''api_gateway'' a (now w 1))"
    unfolding cs by simp
  with raised first_metric_raises(3) cs res show ?thesis by simp
next
  case (second_metric_raises a d e')
  from run second_metric_raises(5) have cs: "cs =
         [HttpRequest ''GET'' health_url, DescribeTable ''bvester-users'',
          PutMetricData ''Bvester/Health'' (metric_data ''api_gateway'' a (now w 1)),
          PutMetricData ''Bvester/Health'' (metric_data ''dynamodb'' d (now w 2))]"
    and res: "res = Inl e'" by simp_all
  from made have "PutMetricData ns md =
      PutMetricData ''Bvester/Health'' (metric_data ''api_gateway'' a (now w 1))
    \<or> PutMetricData ns md =
      PutMetricData ''Bvester/Health'' (metric_data ''dynamodb'' d (now w 2))"
    unfolding cs by simp
  then show ?thesis
  proof
    assume "PutMetricData ns md =
      PutMetricData ''Bvester/Health'' (metric_data ''api_gateway'' a (now w 1))"
    with raised second_metric_raises(3) show ?thesis by simp
  next
    assume "PutMetricData ns md =
      PutMetricData ''Bvester/Health'' (metric_data ''dynamodb'' d (now w 2))"
    with raised second_metric_raises(4) cs res show ?thesis by simp
  qed
next
  case (returns a d)
  from run returns(5) have cs: "cs =
         [HttpRequest ''GET'' health_url, DescribeTable ''bvester-users'',
          PutMetricData ''Bvester/Health'' (metric_data ''api_gateway'' a (now w 1)),
          PutMetricData ''Bvester/Health'' (metric_data ''dynamodb'' d (now w 2))]"
    by simp
  from made have "PutMetricData ns md =
      PutMetricData ''Bvester/Health'' (metric_data ''api_gateway'' a (now w 1))
    \<or> PutMetricData ns md =
      PutMetricData ''Bvester/Health'' (metric_data ''dynamodb'' d (now w 2))"
    unfolding cs by simp
  with raised returns(3,4) show ?thesis by auto
qed

theorem metric_error_propagates_witness:
  "\<exists>cs. lambda_handler
       (sample_world (Inr 200) None None
          (\<lambda>n. if n = ''dynamodb_health'' then Some (PyException ''ClientError'') else None))
       () () = (cs, Inl (PyException ''ClientError''))
     \<and> last cs = PutMetricData ''Bvester/Health''
          (metric_data ''dynamodb'' ''healthy'' (sample_clock 2))"
proof -
  let ?w = "sample_world (Inr 200) None None
          (\<lambda>n. if n = ''dynamodb_health'' then Some (PyException ''ClientError'') else None)"
  let ?md = "metric_data ''dynamodb'' ''healthy'' (sample_clock 2)"
  have "\<exists>cs res. lambda_handler ?w () () = (cs, res)
      \<and> PutMetricData ''Bvester/Health'' ?md \<in> set cs"
    by (simp add: handler_defs numeral_2_eq_2)
  then obtain cs res where run: "lambda_handler ?w () () = (cs, res)"
    and made: "PutMetricData ''Bvester/Health'' ?md \<in> set cs"
    by blast
  have raised: "put_metric_data ?w ''Bvester/Health'' ?md = Some (PyException ''ClientError'')"
    by (simp add: sample_world_def metric_data_def)
  from metric_error_propagates [OF run made raised] run show ?thesis by simp
qed

text \<open>
  C8. The event and the context have no influence: two invocations in the same world,
  with any two events and any two contexts (of any types), make the same outbound calls
  in the same order and end the same way, with the same exception or the same returned
  value.
\<close>

theorem event_and_context_ignored:
  "lambda_handler w event context = lambda_handler w event' context'"
  by (simp add: lambda_handler_def)

text \<open>
  C9. The client for the table storage is constructed outside the \<^verbatim>\<open>try\<close>: when the
  constructor raises, that exception leaves the handler, nothing is returned, and the
  only outbound call made is the HTTP request of the first check. No describe-table call
  and no metric call is made.
\<close>

theorem client_error_propagates:
  "boto3_client w ''dynamodb'' = Some e \<Longrightarrow>
   lambda_handler w event context = ([HttpRequest ''GET'' health_url], Inl e)"
  by (rule lambda_handler_raises)

theorem client_error_propagates_witness:
  "boto3_client (sample_world (Inr 200) (Some (PyException ''NoRegionError'')) None (\<lambda>n. None))
     ''dynamodb'' = Some (PyException ''NoRegionError'') \<and>
   lambda_handler (sample_world (Inr 200) (Some (PyException ''NoRegionError'')) None (\<lambda>n. None))
     () () = ([HttpRequest ''GET'' health_url], Inl (PyException ''NoRegionError''))"
  using client_error_propagates
    [of "sample_world (Inr 200) (Some (PyException ''NoRegionError'')) None (\<lambda>n. None)"
        "PyException ''NoRegionError''" "()" "()"]
  by (simp add: sample_world_def)

text \<open>
  C10. The calls of an invocation are an initial part of one fixed sequence: the HTTP GET,
  the describe-table call, the metric for \<^verbatim>\<open>api_gateway\<close>, the metric for \<^verbatim>\<open>dynamodb\<close>.
  The part has length 1 (the client constructor raised), 3 (the first metric call
  raised) or 4, and length 4 whenever the handler returns. So no metric call comes before
  both checks' calls.
\<close>

theorem calls_in_fixed_order:
  "\<exists>m1 m2 n.
     fst (lambda_handler w event context) =
       take n [HttpRequest ''GET'' health_url, DescribeTable ''bvester-users'',
               PutMetricData ''Bvester/Health'' [m1], PutMetricData ''Bvester/Health'' [m2]]
     \<and> MetricName m1 = ''api_gateway_health'' \<and> MetricName m2 = ''dynamodb_health''
     \<and> (n = 1 \<or> n = 3 \<or> n = 4)
     \<and> (\<forall>r. snd (lambda_handler w event context) = Inr r \<longrightarrow> n = 4)"
proof (cases rule: lambda_handler_cases [of w event "context"])
  case (client_raises e)
  let ?m1 = "\<lparr>MetricName = ''api_gateway_health'', Value = 0, Unit = ''None'', Timestamp = now w 1\<rparr>"
  let ?m2 = "\<lparr>MetricName = ''dynamodb_health'', Value = 0, Unit = ''None'', Timestamp = now w 2\<rparr>"
  show ?thesis
    by (rule exI [of _ ?m1], rule exI [of _ ?m2], rule exI [of _ 1])
       (simp add: client_raises(2))
next
  case (first_metric_raises a d e)
  let ?m1 = "hd (metric_data ''api_gateway'' a (now w 1))"
  let ?m2 = "hd (metric_data ''dynamodb'' d (now w 2))"
  show ?thesis
    by (rule exI [of _ ?m1], rule exI [of _ ?m2], rule exI [of _ 3])
       (simp add: first_metric_raises(4) metric_data_def)
next
  case (second_metric_raises a d e)
  let ?m1 = "hd (metric_data ''api_gateway'' a (now w 1))"
  let ?m2 = "hd (metric_data ''dynamodb'' d (now w 2))"
  show ?thesis
    by (rule exI [of _ ?m1], rule exI [of _ ?m2], rule exI [of _ 4])
       (simp add: second_metric_raises(5) metric_data_def)
next
  case (returns a d)
  let ?m1 = "hd (metric_data ''api_gateway'' a (now w 1))"
  let ?m2 = "hd (metric_data ''dynamodb'' d (now w 2))"
  show ?thesis
    by (rule exI [of _ ?m1], rule exI [of _ ?m2], rule exI [of _ 4])
       (simp add: returns(5) metric_data_def)
qed

theorem calls_in_fixed_order_witness:
  "\<exists>m1 m2.
     fst (lambda_handler (sample_world (Inr 200) None None (\<lambda>n. None)) () ()) =
       [HttpRequest ''GET'' health_url, DescribeTable ''bvester-users'',
        PutMetricData ''Bvester/Health'' [m1], PutMetricData ''Bvester/Health'' [m2]]
     \<and> MetricName m1 = ''api_gateway_health'' \<and> MetricName m2 = ''dynamodb_health''"
proof -
  let ?w = "sample_world (Inr 200) None None (\<lambda>n. None)"
  from calls_in_fixed_order [of ?w "()" "()"]
  obtain m1 m2 n where
    order: "fst (lambda_handler ?w () ()) =
       take n [HttpRequest ''GET'' health_url, DescribeTable ''bvester-users'',
               PutMetricData ''Bvester/Health'' [m1], PutMetricData ''Bvester/Health'' [m2]]"
    and names: "MetricName m1 = ''api_gateway_health''" "MetricName m2 = ''dynamodb_health''"
    and full: "\<forall>r. snd (lambda_handler ?w () ()) = Inr r \<longrightarrow> n = 4"
    by blast
  have "\<exists>r. snd (lambda_handler ?w () ()) = Inr r"
    by (simp add: handler_defs)
  with full have "n = 4" by blast
  with order names show ?thesis by auto
qed

end
